theory Spec2Isabelle
  imports Complex_Main "HOL-Library.AList" "HOL-Library.Sublist"
begin

section \<open>The level-of-detail manager (class \<open>LODManager\<close>)\<close>

text \<open>
  The development embeds the class \<open>LODManager\<close> of the viewer: its configuration, the
  vertex decimation, the synthesis of one level, and the registry with its operations.
  JavaScript numbers that hold coordinates, distances and ratios are modelled as
  \<^typ>\<open>real\<close> (the rounding of doubles is not represented), array lengths and indices as
  \<^typ>\<open>nat\<close>, and the integer-valued arguments \<open>targetCount\<close>, \<open>level\<close> and
  \<open>modelID\<close> as \<^typ>\<open>int\<close>. What three.js does in \<open>Mesh.clone\<close>,
  \<open>Object3D.add\<close>, \<open>Object3D.traverse\<close> and \<open>LOD.addLevel\<close> is written out where
  the class calls it. The module binds the names \<open>Object3D\<close>, \<open>LOD\<close>, \<open>Mesh\<close>,
  \<open>BufferGeometry\<close>, \<open>MeshLambertMaterial\<close> and \<open>Vector3\<close> that it imports from
  \<open>three\<close>, and no identifier \<open>THREE\<close>: the annotations \<open>THREE.Camera\<close> and
  \<open>THREE.BufferAttribute\<close> are types, which compilation erases, and the one expression
  that reads \<open>THREE\<close>, at the end of \<open>decimateVertices\<close>, raises \<open>ReferenceError\<close>.
\<close>

subsection \<open>Configuration\<close>

record LODLevel =
  distance :: real
  simplificationRatio :: real
  visible :: bool

record LODConfig =
  levels :: "LODLevel list"
  autoSwitch :: bool
  distanceThreshold :: real

definition defaultConfig :: LODConfig where
  "defaultConfig =
     \<lparr> levels =
         [ \<lparr> distance = 0, simplificationRatio = 1, visible = True \<rparr>,
           \<lparr> distance = 50, simplificationRatio = 1 / 2, visible = True \<rparr>,
           \<lparr> distance = 200, simplificationRatio = 1 / 5, visible = True \<rparr>,
           \<lparr> distance = 500, simplificationRatio = 1 / 20, visible = False \<rparr> ],
       autoSwitch = True,
       distanceThreshold = 1000 \<rparr>"

subsection \<open>Vertex decimation (\<open>decimateVertices\<close>)\<close>

text \<open>
  A position buffer is the flat array \<open>x0, y0, z0, x1, y1, z1, ...\<close> of a
  \<open>BufferAttribute\<close>.
\<close>

record BufferAttribute =
  array :: "real list"
  itemSize :: nat
  bytesPerElement :: nat

text \<open>
  \<open>step = Math.max(1, Math.floor(originalCount / targetCount))\<close>. Division by
  \<open>targetCount = 0\<close> gives \<open>Infinity\<close> (or \<open>NaN\<close> for an empty buffer), which
  \<open>Math.floor\<close> and \<open>Math.max\<close> pass on; every other quotient gives a finite step of at
  least one.
\<close>

datatype Step = Finite nat | Infinite | NotANumber

definition stepOf :: "real list \<Rightarrow> int \<Rightarrow> Step" where
  "stepOf positions targetCount =
     (let originalCount = real (length positions) / 3 in
      if targetCount = 0 then (if originalCount = 0 then NotANumber else Infinite)
      else Finite (nat (max 1 \<lfloor>originalCount / real_of_int targetCount\<rfloor>)))"

text \<open>
  The \<open>for\<close> loop, with \<open>i\<close> the loop counter and \<open>newPositions\<close> the array being
  filled. After an infinite or undefined step the comparison \<open>i < originalCount\<close> is false,
  so the loop ends.
\<close>

function decimateLoop :: "real list \<Rightarrow> int \<Rightarrow> nat \<Rightarrow> real list \<Rightarrow> real list" where
  "decimateLoop positions targetCount i newPositions =
     (if real i < real (length positions) / 3 then
        (let index = i * 3;
             pushed =
               (if index + 2 < length positions
                then newPositions @ [positions ! index, positions ! (index + 1), positions ! (index + 2)]
                else newPositions)
         in case stepOf positions targetCount of
              Finite step \<Rightarrow> decimateLoop positions targetCount (i + step) pushed
            | Infinite \<Rightarrow> pushed
            | NotANumber \<Rightarrow> pushed)
      else newPositions)"
  by pat_completeness auto
termination
proof (relation "measure (\<lambda>(positions, targetCount, i, newPositions). length positions - i)")
  show "wf (measure (\<lambda>(positions, targetCount, i, newPositions). length positions - i))"
    by simp
next
  fix positions :: "real list" and targetCount :: int and i :: nat
    and newPositions :: "real list" and index :: nat and pushed :: "real list" and step :: nat
  assume lt: "real i < real (length positions) / 3"
    and st: "stepOf positions targetCount = Finite step"
  from st have "1 \<le> step"
    by (auto simp: stepOf_def Let_def split: if_splits)
  moreover from lt have "i < length positions"
    by simp
  ultimately show "((positions, targetCount, i + step, pushed), (positions, targetCount, i, newPositions))
      \<in> measure (\<lambda>(positions, targetCount, i, newPositions). length positions - i)"
    by simp
qed

declare decimateLoop.simps [simp del]

text \<open>
  Errors are values. A \<open>ReferenceError\<close> is raised by the read of an identifier that is
  not bound, a \<open>TypeError\<close> by the call of something that is not a function (\<open>clone\<close> on
  an array of materials), and a \<open>LibraryError\<close> stands for an exception raised inside
  three.js.
\<close>

datatype Error = ReferenceError | TypeError | LibraryError

text \<open>
  The last statement of the method,
  \<open>return new THREE.BufferAttribute(new Float32Array(newPositions), 3)\<close>. The constructor
  expression \<open>THREE.BufferAttribute\<close> is evaluated before the arguments, and \<open>THREE\<close>
  is not bound: the read raises \<open>ReferenceError\<close>, whatever \<open>newPositions\<close> holds, and
  no \<open>Float32Array\<close> and no attribute is built.
\<close>

definition newTHREEBufferAttribute :: "real list \<Rightarrow> nat \<Rightarrow> Error + BufferAttribute" where
  "newTHREEBufferAttribute newPositions itemSize' = Inl ReferenceError"

text \<open>
  \<open>decimateVertices\<close>: the loop fills \<open>newPositions\<close>, then the last statement is
  evaluated.
\<close>

definition decimateVertices :: "real list \<Rightarrow> int \<Rightarrow> Error + BufferAttribute" where
  "decimateVertices positions targetCount =
     (let newPositions = decimateLoop positions targetCount 0 []
      in newTHREEBufferAttribute newPositions 3)"

text \<open>The 3D points held by a flat buffer, three numbers to a point.\<close>

fun points :: "real list \<Rightarrow> (real \<times> real \<times> real) list" where
  "points (x # y # z # rest) = (x, y, z) # points rest"
| "points _ = []"

subsection \<open>Geometries, materials and scene objects\<close>

text \<open>
  Geometry objects are shared by reference, so they live in a store: an address denotes a
  \<open>BufferGeometry\<close>, and a mesh holds the address of its geometry. The attribute
  \<open>normal\<close> is kept symbolic: \<open>ComputedFrom ps\<close> is what \<open>computeVertexNormals\<close>
  stores for the position array \<open>ps\<close>, \<open>Authored ns\<close> is any other array of normals.
\<close>

datatype Normals = Authored "real list" | ComputedFrom "real list"

record BufferGeometry =
  position :: "BufferAttribute option"
  normal :: "Normals option"
  disposed :: bool

type_synonym Heap = "nat \<Rightarrow> BufferGeometry"

text \<open>
  Materials are cloned before they are changed (\<open>adjustMaterial\<close>), so they are held by
  value. The field \<open>material\<close> of a mesh is one material or an array of materials.
\<close>

record Material =
  isMeshLambertMaterial :: bool
  transparent :: bool
  opacity :: real
  wireframe :: bool

datatype MeshMaterial = Single Material | Multi "Material list"

text \<open>
  A node of the scene graph with its descendants: whether it is a \<open>Mesh\<close>, the address of
  its geometry, its material, its visibility flag and its children.
\<close>

datatype Object3D =
  Object3D (isMesh: bool) (geometry: "nat option") (material: "MeshMaterial option")
    (objectVisible: bool) (children: "Object3D list")

text \<open>
  \<open>Mesh.clone()\<close> of three.js builds a new node, copies the flags, assigns
  \<open>this.geometry = source.geometry\<close> and \<open>this.material = source.material\<close>
  (\<open>Mesh.copy\<close>), and clones the children in the same way: the clone refers to the
  geometry objects of its source.
\<close>

fun cloneObject :: "Object3D \<Rightarrow> Object3D" where
  "cloneObject (Object3D m g mat v cs) = Object3D m g mat v (map cloneObject cs)"

text \<open>\<open>Object3D.traverse\<close>: the node itself, then each child with its descendants.\<close>

fun traverse :: "Object3D \<Rightarrow> Object3D list" where
  "traverse (Object3D m g mat v cs) = Object3D m g mat v cs # concat (map traverse cs)"

text \<open>
  The calls into three.js that may raise: \<open>originalMesh.clone()\<close>,
  \<open>geometry.computeVertexNormals()\<close> and \<open>material.clone()\<close>. Which of them raise is a
  parameter \<open>throws\<close> of the functions below.
\<close>

datatype LibraryCall = MeshClone | ComputeVertexNormals | MaterialClone

subsection \<open>Level synthesis (\<open>createLODLevel\<close>, \<open>simplifyGeometry\<close>, \<open>adjustMaterial\<close>)\<close>

text \<open>
  The callback of \<open>simplifyGeometry\<close> on one node. \<open>geometry.setAttribute\<close> stores the
  attribute that \<open>decimateVertices\<close> returned in the geometry object the node refers to;
  an exception leaves the store as it is at that moment.
\<close>

definition simplifyChild :: "(LibraryCall \<Rightarrow> bool) \<Rightarrow> real \<Rightarrow> Object3D \<Rightarrow> Heap \<Rightarrow> Error option \<times> Heap" where
  "simplifyChild throws ratio child h =
     (if \<not> isMesh child then (None, h)
      else
        (case geometry child of
           None \<Rightarrow> (None, h)
         | Some g \<Rightarrow>
             (case position (h g) of
                None \<Rightarrow> (None, h)
              | Some attribute \<Rightarrow>
                  (let positions = array attribute;
                       originalCount = real (length positions) / 3;
                       targetCount = max 3 \<lfloor>originalCount * ratio\<rfloor>
                   in if real_of_int targetCount < originalCount then
                        (case decimateVertices positions targetCount of
                           Inl e \<Rightarrow> (Some e, h)
                         | Inr simplified \<Rightarrow>
                             (let h1 = h(g := (h g)\<lparr>position := Some simplified\<rparr>)
                              in if throws ComputeVertexNormals then (Some LibraryError, h1)
                                 else (None, h1(g := (h1 g)\<lparr>normal := Some (ComputedFrom (array simplified))\<rparr>))))
                      else (None, h)))))"

text \<open>Running a callback over the traversed nodes; an exception ends the traversal.\<close>

fun forEachNode :: "(Object3D \<Rightarrow> Heap \<Rightarrow> Error option \<times> Heap) \<Rightarrow> Object3D list \<Rightarrow> Heap \<Rightarrow> Error option \<times> Heap" where
  "forEachNode callback [] h = (None, h)"
| "forEachNode callback (child # rest) h =
     (case callback child h of
        (Some e, h1) \<Rightarrow> (Some e, h1)
      | (None, h1) \<Rightarrow> forEachNode callback rest h1)"

definition simplifyGeometry :: "(LibraryCall \<Rightarrow> bool) \<Rightarrow> Object3D \<Rightarrow> real \<Rightarrow> Heap \<Rightarrow> Error option \<times> Heap" where
  "simplifyGeometry throws mesh ratio h = forEachNode (simplifyChild throws ratio) (traverse mesh) h"

text \<open>
  The callback of \<open>adjustMaterial\<close> on the material of one node: \<open>child.material.clone()\<close>
  is not a function when \<open>child.material\<close> is an array.
\<close>

definition adjustChildMaterial :: "(LibraryCall \<Rightarrow> bool) \<Rightarrow> nat \<Rightarrow> bool \<Rightarrow> MeshMaterial option \<Rightarrow> Error + MeshMaterial option" where
  "adjustChildMaterial throws levelIndex childIsMesh childMaterial =
     (let alpha = max (3 / 10) (1 - real levelIndex * (2 / 10)) in
      if \<not> childIsMesh then Inr childMaterial
      else
        (case childMaterial of
           None \<Rightarrow> Inr None
         | Some (Multi ms) \<Rightarrow> Inl TypeError
         | Some (Single m) \<Rightarrow>
             if throws MaterialClone then Inl LibraryError
             else if isMeshLambertMaterial m then
               Inr (Some (Single (m\<lparr> transparent := 0 < levelIndex, opacity := alpha,
                                      wireframe := (if 2 < levelIndex then True else wireframe m) \<rparr>)))
             else Inr (Some (Single m))))"

text \<open>The first error of a list of results, or all the values.\<close>

fun collect :: "(Error + 'a) list \<Rightarrow> Error + 'a list" where
  "collect [] = Inr []"
| "collect (Inl e # rest) = Inl e"
| "collect (Inr v # rest) = (case collect rest of Inl e \<Rightarrow> Inl e | Inr vs \<Rightarrow> Inr (v # vs))"

fun adjustMaterial :: "(LibraryCall \<Rightarrow> bool) \<Rightarrow> nat \<Rightarrow> Object3D \<Rightarrow> Error + Object3D" where
  "adjustMaterial throws levelIndex (Object3D m g mat v cs) =
     (case adjustChildMaterial throws levelIndex m mat of
        Inl e \<Rightarrow> Inl e
      | Inr mat1 \<Rightarrow>
          (case collect (map (adjustMaterial throws levelIndex) cs) of
             Inl e \<Rightarrow> Inl e
           | Inr cs1 \<Rightarrow> Inr (Object3D m g mat1 v cs1)))"

text \<open>The body of the \<open>try\<close> block of \<open>createLODLevel\<close>.\<close>

definition createLODLevelTry :: "(LibraryCall \<Rightarrow> bool) \<Rightarrow> Object3D \<Rightarrow> LODLevel \<Rightarrow> nat \<Rightarrow> Heap \<Rightarrow> (Error + Object3D) \<times> Heap" where
  "createLODLevelTry throws originalMesh level levelIndex h =
     (if throws MeshClone then (Inl LibraryError, h)
      else
        (let levelMesh = cloneObject originalMesh in
         case (if simplificationRatio level < 1 \<and> 0 < levelIndex
               then simplifyGeometry throws levelMesh (simplificationRatio level) h
               else (None, h)) of
           (Some e, h1) \<Rightarrow> (Inl e, h1)
         | (None, h1) \<Rightarrow>
             (case adjustMaterial throws levelIndex levelMesh of
                Inl e \<Rightarrow> (Inl e, h1)
              | Inr adjusted \<Rightarrow> (Inr adjusted, h1))))"

text \<open>
  A mesh handed to the \<open>LOD\<close> object: the level it was built for, whether it is the original
  mesh object itself (the fallback of level 0) or a clone, and the node.
\<close>

record LevelMesh =
  builtFor :: nat
  isOriginal :: bool
  levelObject :: Object3D

definition createLODLevel :: "(LibraryCall \<Rightarrow> bool) \<Rightarrow> Object3D \<Rightarrow> LODLevel \<Rightarrow> nat \<Rightarrow> Heap \<Rightarrow> LevelMesh option \<times> Heap" where
  "createLODLevel throws originalMesh level levelIndex h =
     (if \<not> visible level then (None, h)
      else
        (case createLODLevelTry throws originalMesh level levelIndex h of
           (Inr levelMesh, h1) \<Rightarrow>
             (Some \<lparr> builtFor = levelIndex, isOriginal = False, levelObject = levelMesh \<rparr>, h1)
         | (Inl error, h1) \<Rightarrow>
             (if levelIndex = 0
              then Some \<lparr> builtFor = levelIndex, isOriginal = True, levelObject = originalMesh \<rparr>
              else None, h1)))"

subsection \<open>The registry and its operations\<close>

datatype Vector3 = Vector3 real real real

fun distanceTo :: "Vector3 \<Rightarrow> Vector3 \<Rightarrow> real" where
  "distanceTo (Vector3 x1 y1 z1) (Vector3 x2 y2 z2)
     = sqrt ((x1 - x2) * (x1 - x2) + (y1 - y2) * (y1 - y2) + (z1 - z2) * (z1 - z2))"

text \<open>
  A \<open>LOD\<close> object of three.js: its position, its array \<open>levels\<close> (distance and the level
  the object was built for, kept sorted by \<open>addLevel\<close>), its children in the order they
  were added, and the scene node it is attached to.
\<close>

record LOD =
  lodPosition :: Vector3
  lodLevels :: "(real \<times> nat) list"
  lodChildren :: "LevelMesh list"
  lodParent :: "nat option"

definition newLOD :: LOD where
  "newLOD = \<lparr> lodPosition = Vector3 0 0 0, lodLevels = [], lodChildren = [], lodParent = None \<rparr>"

text \<open>
  \<open>LOD.addLevel(object, distance)\<close>: the entry goes before the first entry of \<open>levels\<close>
  with a greater distance, and \<open>this.add(object)\<close> appends the object to the children.
\<close>

definition addLevel :: "LOD \<Rightarrow> LevelMesh \<Rightarrow> real \<Rightarrow> LOD" where
  "addLevel lodObject object d =
     (let l = length (takeWhile (\<lambda>entry. \<not> \<bar>d\<bar> < fst entry) (lodLevels lodObject)) in
      lodObject\<lparr> lodLevels := take l (lodLevels lodObject) @ [(\<bar>d\<bar>, builtFor object)] @ drop l (lodLevels lodObject),
                 lodChildren := lodChildren lodObject @ [object] \<rparr>)"

text \<open>
  The manager (\<open>lodObjects\<close>, a \<open>Map\<close> in insertion order, and \<open>config\<close>) together with
  the store of geometries and the library calls that raise while level \<open>i\<close> is built.
\<close>

record World =
  lodObjects :: "(int \<times> LOD) list"
  config :: LODConfig
  heap :: Heap
  libraryThrows :: "nat \<Rightarrow> LibraryCall \<Rightarrow> bool"

record IFCModel =
  modelID :: int
  mesh :: Object3D
  meshParent :: "nat option"

text \<open>Where the original mesh hangs while \<open>createLODForModel\<close> runs.\<close>

datatype MeshParent = Detached | SceneNode nat | ThisLOD

text \<open>
  The constructor and \<open>setConfig\<close> merge a partial configuration into the current one.
\<close>

record PartialLODConfig =
  levelsGiven :: "LODLevel list option"
  autoSwitchGiven :: "bool option"
  distanceThresholdGiven :: "real option"

definition mergeConfig :: "LODConfig \<Rightarrow> PartialLODConfig \<Rightarrow> LODConfig" where
  "mergeConfig current given =
     \<lparr> levels = (case levelsGiven given of None \<Rightarrow> levels current | Some v \<Rightarrow> v),
       autoSwitch = (case autoSwitchGiven given of None \<Rightarrow> autoSwitch current | Some v \<Rightarrow> v),
       distanceThreshold = (case distanceThresholdGiven given of None \<Rightarrow> distanceThreshold current | Some v \<Rightarrow> v) \<rparr>"

definition newLODManager :: "PartialLODConfig option \<Rightarrow> Heap \<Rightarrow> (nat \<Rightarrow> LibraryCall \<Rightarrow> bool) \<Rightarrow> World" where
  "newLODManager given h throws =
     \<lparr> lodObjects = [],
       config = (case given of None \<Rightarrow> defaultConfig | Some c \<Rightarrow> mergeConfig defaultConfig c),
       heap = h, libraryThrows = throws \<rparr>"

definition setConfig :: "World \<Rightarrow> PartialLODConfig \<Rightarrow> World" where
  "setConfig w given = w\<lparr> config := mergeConfig (config w) given \<rparr>"

definition removeLODForModel :: "World \<Rightarrow> int \<Rightarrow> World" where
  "removeLODForModel w modelID' =
     (case map_of (lodObjects w) modelID' of
        None \<Rightarrow> w
      | Some lodObject \<Rightarrow> w\<lparr> lodObjects := AList.delete modelID' (lodObjects w) \<rparr>)"

text \<open>
  The \<open>forEach\<close> over \<open>config.levels\<close> in \<open>createLODForModel\<close>, from \<open>index\<close> on. Adding
  the original mesh itself to the \<open>LOD\<close> object takes it from its scene parent.
\<close>

fun buildLevels :: "(nat \<Rightarrow> LibraryCall \<Rightarrow> bool) \<Rightarrow> Object3D \<Rightarrow> LODLevel list \<Rightarrow> nat
    \<Rightarrow> LOD \<times> MeshParent \<times> Heap \<Rightarrow> LOD \<times> MeshParent \<times> Heap" where
  "buildLevels throws originalMesh [] index state = state"
| "buildLevels throws originalMesh (level # rest) index (lodObject, parent, h) =
     (case createLODLevel (throws index) originalMesh level index h of
        (None, h1) \<Rightarrow> buildLevels throws originalMesh rest (Suc index) (lodObject, parent, h1)
      | (Some levelMesh, h1) \<Rightarrow>
          buildLevels throws originalMesh rest (Suc index)
            (addLevel lodObject levelMesh (distance level),
             if isOriginal levelMesh then ThisLOD else parent, h1))"

text \<open>
  \<open>createLODForModel\<close>. After the levels are built, \<open>originalMesh.parent?.add(lodObject)\<close>
  attaches the \<open>LOD\<close> object where the mesh hangs (three.js refuses to add an object to
  itself), and \<open>originalMesh.removeFromParent()\<close> takes the mesh from its parent.
\<close>

definition createLODForModel :: "World \<Rightarrow> IFCModel \<Rightarrow> World" where
  "createLODForModel w model =
     (let w1 = (if map_of (lodObjects w) (modelID model) \<noteq> None
                then removeLODForModel w (modelID model) else w);
          start = (case meshParent model of None \<Rightarrow> Detached | Some p \<Rightarrow> SceneNode p)
      in case buildLevels (libraryThrows w1) (mesh model) (levels (config w1)) 0 (newLOD, start, heap w1) of
           (built, parent, h1) \<Rightarrow>
             (let attached = (case parent of SceneNode p \<Rightarrow> built\<lparr> lodParent := Some p \<rparr> | _ \<Rightarrow> built);
                  lodObject = (case parent of
                                 ThisLOD \<Rightarrow> attached\<lparr> lodChildren := filter (\<lambda>c. \<not> isOriginal c) (lodChildren attached) \<rparr>
                               | _ \<Rightarrow> attached)
              in w1\<lparr> lodObjects := AList.update (modelID model) lodObject (lodObjects w1), heap := h1 \<rparr>))"

text \<open>
  \<open>setLODLevel\<close>. The range check reads \<open>config.levels.length\<close>; the loop runs over the
  children of the \<open>LOD\<close> object. The constant \<open>distance\<close> that the method reads from
  \<open>config.levels[level]\<close> is not used, and for an integer \<open>level\<close> in range the read is
  inside the array.
\<close>

fun setVisible :: "bool \<Rightarrow> Object3D \<Rightarrow> Object3D" where
  "setVisible b (Object3D m g mat v cs) = Object3D m g mat b cs"

definition showOnly :: "int \<Rightarrow> LevelMesh list \<Rightarrow> LevelMesh list" where
  "showOnly level cs =
     map (\<lambda>(child, index). child\<lparr> levelObject := setVisible (int index = level) (levelObject child) \<rparr>)
       (zip cs [0..<length cs])"

definition setLODLevel :: "World \<Rightarrow> int \<Rightarrow> int \<Rightarrow> World" where
  "setLODLevel w modelID' level =
     (case map_of (lodObjects w) modelID' of
        None \<Rightarrow> w
      | Some lodObject \<Rightarrow>
          if 0 \<le> level \<and> level < int (length (levels (config w))) then
            w\<lparr> lodObjects :=
                 AList.update modelID' (lodObject\<lparr> lodChildren := showOnly level (lodChildren lodObject) \<rparr>)
                   (lodObjects w) \<rparr>
          else w)"

text \<open>
  \<open>getCurrentLODLevel\<close>. The loop counts \<open>i\<close> down from \<open>levels.length - 1\<close>; the argument
  of \<open>currentLevelLoop\<close> is \<open>i + 1\<close>. The query returns the state it was given.
\<close>

fun currentLevelLoop :: "LODLevel list \<Rightarrow> real \<Rightarrow> nat \<Rightarrow> nat" where
  "currentLevelLoop ls d 0 = 0"
| "currentLevelLoop ls d (Suc i) = (if distance (ls ! i) \<le> d then i else currentLevelLoop ls d i)"

definition getCurrentLODLevel :: "World \<Rightarrow> int \<Rightarrow> Vector3 \<Rightarrow> nat \<times> World" where
  "getCurrentLODLevel w modelID' cameraPosition =
     (case map_of (lodObjects w) modelID' of
        None \<Rightarrow> (0, w)
      | Some lodObject \<Rightarrow>
          (currentLevelLoop (levels (config w)) (distanceTo cameraPosition (lodPosition lodObject))
             (length (levels (config w))), w))"

text \<open>
  \<open>getMemoryUsage\<close>. An entry of \<open>byLevel\<close> is a byte count, \<open>NaN\<close>, or an empty slot: a
  write past the end of the array adds to \<open>undefined\<close> and leaves empty slots before it.
\<close>

datatype Bucket = Bytes nat | NaN | Empty

definition addToBucket :: "Bucket list \<Rightarrow> nat \<Rightarrow> nat \<Rightarrow> Bucket list" where
  "addToBucket byLevel index memory =
     (if index < length byLevel then
        byLevel[index := (case byLevel ! index of Bytes b \<Rightarrow> Bytes (b + memory) | _ \<Rightarrow> NaN)]
      else byLevel @ replicate (index - length byLevel) Empty @ [NaN])"

definition childMemory :: "Heap \<Rightarrow> Object3D \<Rightarrow> nat option" where
  "childMemory h child =
     (if \<not> isMesh child then None
      else case geometry child of
             None \<Rightarrow> None
           | Some g \<Rightarrow>
               (case position (h g) of
                  None \<Rightarrow> Some 0
                | Some positions \<Rightarrow> Some (length (array positions) * bytesPerElement positions)))"

fun memoryOfChildren :: "Heap \<Rightarrow> LevelMesh list \<Rightarrow> nat \<Rightarrow> nat \<times> Bucket list \<Rightarrow> nat \<times> Bucket list" where
  "memoryOfChildren h [] index acc = acc"
| "memoryOfChildren h (child # rest) index (total', byLevel) =
     (case childMemory h (levelObject child) of
        None \<Rightarrow> memoryOfChildren h rest (Suc index) (total', byLevel)
      | Some memory \<Rightarrow>
          memoryOfChildren h rest (Suc index) (total' + memory, addToBucket byLevel index memory))"

fun memoryOfObjects :: "Heap \<Rightarrow> (int \<times> LOD) list \<Rightarrow> nat \<times> Bucket list \<Rightarrow> nat \<times> Bucket list" where
  "memoryOfObjects h [] acc = acc"
| "memoryOfObjects h ((modelID', lodObject) # rest) acc =
     memoryOfObjects h rest (memoryOfChildren h (lodChildren lodObject) 0 acc)"

definition getMemoryUsage :: "World \<Rightarrow> nat \<times> Bucket list" where
  "getMemoryUsage w =
     memoryOfObjects (heap w) (lodObjects w) (0, replicate (length (levels (config w))) (Bytes 0))"

text \<open>
  \<open>dispose\<close>. \<open>geometry.dispose()\<close> marks the geometry object of each child that is a mesh;
  disposing a material changes nothing that this state holds. The registry is cleared.
\<close>

definition disposeChild :: "Object3D \<Rightarrow> Heap \<Rightarrow> Heap" where
  "disposeChild child h =
     (if \<not> isMesh child then h
      else case geometry child of
             None \<Rightarrow> h
           | Some g \<Rightarrow> h(g := (h g)\<lparr> disposed := True \<rparr>))"

definition disposeObjects :: "(int \<times> LOD) list \<Rightarrow> Heap \<Rightarrow> Heap" where
  "disposeObjects objects h =
     fold (\<lambda>(modelID', lodObject) h1. fold (\<lambda>child. disposeChild (levelObject child)) (lodChildren lodObject) h1)
       objects h"

definition dispose :: "World \<Rightarrow> World" where
  "dispose w = w\<lparr> heap := disposeObjects (lodObjects w) (heap w), lodObjects := [] \<rparr>"

text \<open>
  \<open>updateLOD\<close> hands every \<open>LOD\<close> object to \<open>LOD.update\<close> of three.js when
  \<open>autoSwitch\<close> is set, and \<open>getConfig\<close> returns a copy of the configuration; the
  properties below do not depend on them.
\<close>

subsection \<open>Sample scenes\<close>

text \<open>
  A mesh of eight vertices with one Lambert material, registered as model 1 with a new
  manager under the default configuration (\<open>exampleWorld\<close>). No call into three.js raises.
\<close>

definition exampleGeometry :: BufferGeometry where
  "exampleGeometry =
     \<lparr> position = Some \<lparr> array = [0, 1, 2, 3, 4, 5, 6, 7, 8, 9, 10, 11, 12, 13, 14, 15, 16, 17, 18, 19, 20, 21, 22, 23],
                           itemSize = 3, bytesPerElement = 4 \<rparr>,
       normal = Some (Authored []), disposed = False \<rparr>"

definition exampleMaterial :: Material where
  "exampleMaterial = \<lparr> isMeshLambertMaterial = True, transparent = False, opacity = 1, wireframe = False \<rparr>"

definition exampleMesh :: Object3D where
  "exampleMesh = Object3D True (Some 0) (Some (Single exampleMaterial)) True []"

definition exampleModel :: IFCModel where
  "exampleModel = \<lparr> modelID = 1, mesh = exampleMesh, meshParent = Some 7 \<rparr>"

definition exampleWorld :: World where
  "exampleWorld = createLODForModel (newLODManager None (\<lambda>g. exampleGeometry) (\<lambda>i c. False)) exampleModel"

text \<open>
  A mesh of three vertices with authored normals, for which no level calls the decimation,
  registered as model 1 with a new manager: under the default configuration
  (\<open>tinyWorld\<close>) and under a configuration whose middle level is disabled
  (\<open>gappedWorld\<close>). No call into three.js raises.
\<close>

definition tinyGeometry :: BufferGeometry where
  "tinyGeometry =
     \<lparr> position = Some \<lparr> array = [0, 0, 0, 1, 0, 0, 0, 1, 0], itemSize = 3, bytesPerElement = 4 \<rparr>,
       normal = Some (Authored [0, 0, 1, 0, 0, 1, 0, 0, 1]), disposed = False \<rparr>"

definition tinyMesh :: Object3D where
  "tinyMesh = Object3D True (Some 0) (Some (Single exampleMaterial)) True []"

definition tinyModel :: IFCModel where
  "tinyModel = \<lparr> modelID = 1, mesh = tinyMesh, meshParent = Some 7 \<rparr>"

definition tinyWorld :: World where
  "tinyWorld = createLODForModel (newLODManager None (\<lambda>g. tinyGeometry) (\<lambda>i c. False)) tinyModel"

definition gappedConfig :: PartialLODConfig where
  "gappedConfig =
     \<lparr> levelsGiven = Some
         [ \<lparr> distance = 0, simplificationRatio = 1, visible = True \<rparr>,
           \<lparr> distance = 50, simplificationRatio = 1 / 2, visible = False \<rparr>,
           \<lparr> distance = 200, simplificationRatio = 1 / 5, visible = True \<rparr> ],
       autoSwitchGiven = None, distanceThresholdGiven = None \<rparr>"

definition gappedWorld :: World where
  "gappedWorld = createLODForModel (newLODManager (Some gappedConfig) (\<lambda>g. tinyGeometry) (\<lambda>i c. False)) tinyModel"

text \<open>A mesh whose material is an array.\<close>

definition arrayMesh :: Object3D where
  "arrayMesh = Object3D True (Some 0) (Some (Multi [exampleMaterial])) True []"

subsection \<open>Notions used in the statements\<close>

text \<open>
  The point and the three numbers at index \<open>k\<close> of a flat buffer, and the step of
  \<open>decimateVertices\<close> for a buffer of \<open>originalCount\<close> whole points.
\<close>

definition pointAt :: "real list \<Rightarrow> nat \<Rightarrow> real \<times> real \<times> real" where
  "pointAt positions k = (positions ! (3 * k), positions ! (3 * k + 1), positions ! (3 * k + 2))"

definition tripleAt :: "real list \<Rightarrow> nat \<Rightarrow> real list" where
  "tripleAt positions k = [positions ! (3 * k), positions ! (3 * k + 1), positions ! (3 * k + 2)]"

definition strideOf :: "nat \<Rightarrow> int \<Rightarrow> nat" where
  "strideOf originalCount targetCount
     = nat (max 1 \<lfloor>real originalCount / real_of_int targetCount\<rfloor>)"

text \<open>
  An output count that lies within one stride of the target count.
\<close>

definition withinOneStride :: "nat \<Rightarrow> int \<Rightarrow> int \<Rightarrow> bool" where
  "withinOneStride outputCount targetCount stride \<longleftrightarrow> \<bar>int outputCount - targetCount\<bar> \<le> stride"

text \<open>
  The highest index of an enabled level whose distance is at most \<open>d\<close>, and 0 when there
  is none.
\<close>

definition highestEnabledLevel :: "LODLevel list \<Rightarrow> real \<Rightarrow> nat" where
  "highestEnabledLevel ls d =
     (case filter (\<lambda>i. visible (ls ! i) \<and> distance (ls ! i) \<le> d) [0..<length ls] of
        [] \<Rightarrow> 0
      | i # rest \<Rightarrow> last (i # rest))"


text \<open>
  A sequence of registrations and removals, run from left to right.
\<close>

datatype Operation = Register IFCModel | Unregister int

fun runOperations :: "World \<Rightarrow> Operation list \<Rightarrow> World" where
  "runOperations w [] = w"
| "runOperations w (Register model # rest) = runOperations (createLODForModel w model) rest"
| "runOperations w (Unregister modelID' # rest) = runOperations (removeLODForModel w modelID') rest"

section \<open>Properties of the decimation\<close>

subsection \<open>The loop\<close>

lemma decimateVertices_raises: "decimateVertices positions targetCount = Inl ReferenceError"
  by (simp add: decimateVertices_def newTHREEBufferAttribute_def)

lemma stepOf_finite:
  assumes "targetCount \<noteq> 0"
  shows "stepOf positions targetCount
    = Finite (nat (max 1 \<lfloor>real (length positions) / 3 / real_of_int targetCount\<rfloor>))"
  using assms by (simp add: stepOf_def)


lemma decimateLoop_stop:
  assumes "length positions \<le> 3 * i"
  shows "decimateLoop positions targetCount i acc = acc"
  using assms by (subst decimateLoop.simps) simp

lemma decimateLoop_step:
  assumes "stepOf positions targetCount = Finite step" and "3 * i + 2 < length positions"
  shows "decimateLoop positions targetCount i acc
    = decimateLoop positions targetCount (i + step)
        (acc @ [positions ! (3 * i), positions ! (3 * i + 1), positions ! (3 * i + 2)])"
proof -
  have "real i < real (length positions) / 3"
    using assms(2) by simp
  thus ?thesis
    using assms by (subst decimateLoop.simps) (simp add: Let_def mult.commute)
qed


lemma ceil_div_nat:
  assumes "1 \<le> (s::nat)"
  shows "\<lceil>real n / real s\<rceil> = int ((n + s - 1) div s)"
proof -
  define q where "q = (n + s - 1) div s"
  have m: "(n + s - 1) mod s < s"
    using assms by simp
  have e: "n + s - 1 = q * s + (n + s - 1) mod s"
    by (simp add: q_def)
  have a: "n \<le> q * s"
    using e m assms by linarith
  have b: "q * s < n + s"
    using e assms by linarith
  have sp: "0 < real s"
    using assms by simp
  have "real n \<le> real (q * s)"
    using a by (simp only: of_nat_le_iff)
  hence u: "real n / real s \<le> real q"
    using sp by (simp add: divide_le_eq)
  have "real (q * s) < real (n + s)"
    using b by (simp only: of_nat_less_iff)
  hence l: "real q - 1 < real n / real s"
    using sp by (simp add: less_divide_eq algebra_simps)
  have "\<lceil>real n / real s\<rceil> = int q"
    by (rule ceiling_unique) (use u l in simp_all)
  thus ?thesis
    by (simp add: q_def)
qed

lemma count_suc:
  assumes "i < (n::nat)" "1 \<le> s"
  shows "(n - i + s - 1) div s = Suc ((n - (i + s) + s - 1) div s)"
proof (cases "i + s \<le> n")
  case True
  define a where "a = n - (i + s) + s - 1"
  have e: "n - i + s - 1 = a + s"
    using True assms unfolding a_def by linarith
  have "(a + s) div s = Suc (a div s)"
    using assms by simp
  thus ?thesis
    by (simp only: e a_def [symmetric])
next
  case False
  hence z: "n - (i + s) + s - 1 = s - 1"
    by simp
  have "s \<le> n - i + s - 1" "n - i + s - 1 < 2 * s"
    using False assms by linarith+
  hence "(n - i + s - 1) div s = 1"
    using assms by (simp add: div_nat_eqI)
  thus ?thesis
    using z assms by simp
qed

lemma subseq_map_nth_drop:
  "sorted_wrt (<) ks \<Longrightarrow> \<forall>k\<in>set ks. m \<le> k \<and> k < length xs \<Longrightarrow> subseq (map ((!) xs) ks) (drop m xs)"
proof (induction ks arbitrary: m)
  case Nil
  show ?case by simp
next
  case (Cons k ks)
  hence k: "m \<le> k" "k < length xs"
    by simp_all
  have rest: "\<forall>j\<in>set ks. Suc k \<le> j \<and> j < length xs"
    using Cons.prems by auto
  have "sorted_wrt (<) ks"
    using Cons.prems by simp
  hence ih: "subseq (map ((!) xs) ks) (drop (Suc k) xs)"
    using Cons.IH [OF _ rest] by simp
  have "drop m xs = take (k - m) (drop m xs) @ drop k xs"
    using k by (metis append_take_drop_id drop_drop le_add_diff_inverse2)
  also have "drop k xs = xs ! k # drop (Suc k) xs"
    using k by (simp add: Cons_nth_drop_Suc)
  finally have d: "drop m xs = take (k - m) (drop m xs) @ xs ! k # drop (Suc k) xs" .
  have "subseq (xs ! k # map ((!) xs) ks) (xs ! k # drop (Suc k) xs)"
    using ih by simp
  hence "subseq (xs ! k # map ((!) xs) ks) (take (k - m) (drop m xs) @ xs ! k # drop (Suc k) xs)"
    by (rule subseq_drop_many)
  thus ?case
    using d by simp
qed

lemma upt_0_Suc: "[0..<Suc c] = 0 # map Suc [0..<c]"
proof -
  have "[0..<Suc c] = 0 # [Suc 0..<Suc c]"
    by (rule upt_conv_Cons) simp
  also have "[Suc 0..<Suc c] = map Suc [0..<c]"
    by (rule map_Suc_upt [symmetric])
  finally show ?thesis .
qed

lemma decimateLoop_closed:
  assumes len: "length positions = 3 * n"
    and st: "stepOf positions targetCount = Finite s" and s: "1 \<le> s"
  shows "decimateLoop positions targetCount i acc
    = acc @ concat (map (\<lambda>j. tripleAt positions (i + j * s)) [0..<(n - i + s - 1) div s])"
proof (induction "n - i" arbitrary: i acc rule: less_induct)
  case less
  show ?case
  proof (cases "i < n")
    case False
    hence "(n - i + s - 1) div s = 0"
      using s by simp
    moreover have "decimateLoop positions targetCount i acc = acc"
      using False len by (simp add: decimateLoop_stop)
    ultimately show ?thesis
      by simp
  next
    case True
    let ?c = "(n - (i + s) + s - 1) div s"
    have c: "(n - i + s - 1) div s = Suc ?c"
      using count_suc [OF True s] .
    have dec: "n - (i + s) < n - i"
      using True s by linarith
    have "decimateLoop positions targetCount i acc
        = decimateLoop positions targetCount (i + s) (acc @ tripleAt positions i)"
      using decimateLoop_step [OF st, of i acc] True len by (simp add: tripleAt_def)
    also have "\<dots> = (acc @ tripleAt positions i)
        @ concat (map (\<lambda>j. tripleAt positions (i + s + j * s)) [0..<?c])"
      using less [OF dec] .
    also have "\<dots> = acc @ concat (map (\<lambda>j. tripleAt positions (i + j * s)) (0 # map Suc [0..<?c]))"
      by (simp add: comp_def add.assoc)
    also have "0 # map Suc [0..<?c] = [0..<(n - i + s - 1) div s]"
      by (simp only: c upt_0_Suc)
    finally show ?thesis .
  qed
qed

lemma points_concat_triples:
  "points (concat (map (tripleAt positions) ks)) = map (pointAt positions) ks"
  by (induction ks) (simp_all add: tripleAt_def pointAt_def)

lemma points_eq_map_pointAt:
  "length positions = 3 * n \<Longrightarrow> points positions = map (pointAt positions) [0..<n]"
proof (induction n arbitrary: positions)
  case 0
  thus ?case by simp
next
  case (Suc n)
  then obtain a b c rest where ps: "positions = a # b # c # rest"
    by (cases positions rule: points.cases) simp_all
  hence r: "length rest = 3 * n"
    using Suc.prems by simp
  have sh: "\<And>k. pointAt positions (Suc k) = pointAt rest k"
    by (simp add: pointAt_def ps)
  have "map (pointAt positions) [0..<Suc n] = pointAt positions 0 # map (pointAt positions) (map Suc [0..<n])"
    by (simp only: upt_0_Suc list.map)
  also have "\<dots> = (a, b, c) # map (pointAt rest) [0..<n]"
    by (simp add: sh) (simp add: pointAt_def ps)
  finally show ?case
    using Suc.IH [OF r] ps by simp
qed

lemma length_points: "length positions = 3 * n \<Longrightarrow> length (points positions) = n"
  by (simp add: points_eq_map_pointAt)

lemma nth_points:
  "length positions = 3 * n \<Longrightarrow> k < n \<Longrightarrow> points positions ! k = pointAt positions k"
  by (simp add: points_eq_map_pointAt)

lemma length_concat_triples:
  "length (concat (map (tripleAt positions) ks)) = 3 * length ks"
  by (induction ks) (simp_all add: tripleAt_def)

lemma stride_index_bound:
  assumes "1 \<le> (s::nat)" and "j < (n + s - 1) div s"
  shows "j * s < n"
proof -
  have "0 < s"
    using assms by simp
  have "Suc j \<le> (n + s - 1) div s"
    using assms by simp
  hence "Suc j * s \<le> n + s - 1"
    using \<open>0 < s\<close> by (simp only: less_eq_div_iff_mult_less_eq)
  thus ?thesis
    using \<open>0 < s\<close> by simp
qed

lemma strideOf_pos: "1 \<le> strideOf n t"
  by (simp add: strideOf_def)

lemma stepOf_strideOf:
  assumes "length positions = 3 * n" and "targetCount \<noteq> 0"
  shows "stepOf positions targetCount = Finite (strideOf n targetCount)"
  using assms by (simp add: stepOf_finite strideOf_def)

lemma decimateLoop_points:
  assumes len: "length positions = 3 * n" and t: "targetCount \<noteq> 0"
  defines "s \<equiv> strideOf n targetCount"
  defines "c \<equiv> (n + s - 1) div s"
  shows "decimateLoop positions targetCount 0 []
      = concat (map (tripleAt positions) (map (\<lambda>j. j * s) [0..<c]))"
    and "points (decimateLoop positions targetCount 0 [])
      = map (\<lambda>j. points positions ! (j * s)) [0..<c]"
    and "length (decimateLoop positions targetCount 0 []) = 3 * c"
proof -
  have s1: "1 \<le> s"
    unfolding s_def by (rule strideOf_pos)
  have st: "stepOf positions targetCount = Finite s"
    using stepOf_strideOf [OF len t] by (simp add: s_def)
  have "decimateLoop positions targetCount 0 []
      = [] @ concat (map (\<lambda>j. tripleAt positions (0 + j * s)) [0..<(n - 0 + s - 1) div s])"
    by (rule decimateLoop_closed [OF len st s1])
  thus a: "decimateLoop positions targetCount 0 []
      = concat (map (tripleAt positions) (map (\<lambda>j. j * s) [0..<c]))"
    by (simp add: c_def comp_def)
  have "points (decimateLoop positions targetCount 0 [])
      = map (pointAt positions) (map (\<lambda>j. j * s) [0..<c])"
    by (simp only: a points_concat_triples)
  also have "\<dots> = map (\<lambda>j. points positions ! (j * s)) [0..<c]"
  proof -
    have "\<And>j. j < c \<Longrightarrow> pointAt positions (j * s) = points positions ! (j * s)"
      using stride_index_bound [OF s1] nth_points [OF len] by (simp add: c_def)
    thus ?thesis
      by simp
  qed
  finally show "points (decimateLoop positions targetCount 0 [])
      = map (\<lambda>j. points positions ! (j * s)) [0..<c]" .
  show "length (decimateLoop positions targetCount 0 []) = 3 * c"
    by (simp only: a length_concat_triples) simp
qed

lemma stride_indices_sorted:
  assumes "1 \<le> (s::nat)"
  shows "sorted_wrt (<) (map (\<lambda>j. j * s) [0..<c])"
proof -
  have "sorted_wrt (\<lambda>x y. x * s < y * s) [0..<c]"
    by (rule sorted_wrt_mono_rel [OF _ sorted_wrt_upt]) (use assms in simp)
  thus ?thesis
    by (simp add: sorted_wrt_map)
qed

lemma decimateLoop_subseq:
  assumes len: "length positions = 3 * n" and t: "targetCount \<noteq> 0"
  shows "subseq (points (decimateLoop positions targetCount 0 [])) (points positions)"
proof -
  let ?s = "strideOf n targetCount"
  let ?c = "(n + ?s - 1) div ?s"
  let ?ks = "map (\<lambda>j. j * ?s) [0..<?c]"
  have in_range: "\<forall>k\<in>set ?ks. 0 \<le> k \<and> k < length (points positions)"
    using stride_index_bound [OF strideOf_pos] length_points [OF len] by auto
  have "subseq (map ((!) (points positions)) ?ks) (drop 0 (points positions))"
    by (rule subseq_map_nth_drop [OF stride_indices_sorted [OF strideOf_pos] in_range])
  thus ?thesis
    using decimateLoop_points(2) [OF len t] by (simp add: comp_def)
qed

lemma strideOf_div:
  assumes "0 < targetCount"
  shows "strideOf n targetCount = max 1 (n div nat targetCount)"
proof -
  have "\<lfloor>real n / real_of_int targetCount\<rfloor> = \<lfloor>real_of_int (int n) / real_of_int targetCount\<rfloor>"
    by simp
  also have "\<dots> = int n div targetCount"
    by (rule floor_divide_of_int_eq)
  also have "\<dots> = int (n div nat targetCount)"
    using assms by (simp add: zdiv_int)
  finally show ?thesis
    by (simp add: strideOf_def)
qed

lemma stride_count_bounds:
  assumes t: "1 \<le> (t::nat)" and tn: "t \<le> n"
  defines "s \<equiv> max 1 (n div t)"
  defines "c \<equiv> (n + s - 1) div s"
  shows "t \<le> c" and "c < 2 * t"
proof -
  have tpos: "0 < t"
    using t by simp
  have "1 \<le> n div t"
    using t tn by (simp add: Suc_le_eq div_greater_zero_iff)
  hence s: "s = n div t" and spos: "0 < s"
    by (simp_all add: s_def)
  have lo: "s * t \<le> n"
    unfolding s by (rule div_times_less_eq_dividend)
  have hi: "n < t + s * t"
    unfolding s using dividend_less_div_times [OF tpos, of n] by simp
  have "t * s \<le> n + s - 1"
    using lo spos by (simp add: mult.commute)
  thus "t \<le> c"
    unfolding c_def using spos by (simp only: less_eq_div_iff_mult_less_eq)
  obtain a b where ab: "t = Suc a" "s = Suc b"
    using tpos spos by (metis Suc_pred)
  have "t + s \<le> s * t + 1"
    by (simp add: ab)
  hence "n + s - 1 < 2 * t * s"
    using hi spos by (simp add: mult.commute)
  thus "c < 2 * t"
    unfolding c_def using spos by (simp only: div_less_iff_less_mult)
qed

subsection \<open>A target at or above the vertex count\<close>



subsection \<open>The number of points\<close>

text \<open>
  Claim C10. \<open>decimateVertices\<close> should return the ceiling of \<open>originalCount / step\<close>
  points, with \<open>step = max(1, floor(originalCount / targetCount))\<close>. For a buffer of
  \<open>originalCount\<close> points and a \<open>targetCount\<close>, both at least 1, the loop does fill
  \<open>newPositions\<close> with that many points, the first of them the first point of the input,
  but the method returns nothing: its last statement raises \<open>ReferenceError\<close>.
\<close>

theorem decimateVertices_raises_after_count:
  assumes "length positions = 3 * originalCount" and "1 \<le> originalCount" and "1 \<le> targetCount"
  shows "decimateVertices positions targetCount = Inl ReferenceError
    \<and> int (length (points (decimateLoop positions targetCount 0 [])))
        = \<lceil>real originalCount / real_of_int (max 1 \<lfloor>real originalCount / real_of_int targetCount\<rfloor>)\<rceil>
    \<and> length (decimateLoop positions targetCount 0 [])
        = 3 * length (points (decimateLoop positions targetCount 0 []))
    \<and> points (decimateLoop positions targetCount 0 []) \<noteq> []
    \<and> hd (points (decimateLoop positions targetCount 0 [])) = hd (points positions)"
proof -
  let ?s = "strideOf originalCount targetCount"
  let ?c = "(originalCount + ?s - 1) div ?s"
  let ?out = "decimateLoop positions targetCount 0 []"
  have t: "targetCount \<noteq> 0"
    using assms by simp
  have s1: "1 \<le> ?s"
    by (rule strideOf_pos)
  have pts: "points ?out = map (\<lambda>j. points positions ! (j * ?s)) [0..<?c]"
    by (rule decimateLoop_points(2) [OF assms(1) t])
  have len: "length ?out = 3 * ?c"
    by (rule decimateLoop_points(3) [OF assms(1) t])
  have "real_of_int (max 1 \<lfloor>real originalCount / real_of_int targetCount\<rfloor>) = real ?s"
    by (simp add: strideOf_def)
  hence count: "int (length (points ?out))
      = \<lceil>real originalCount / real_of_int (max 1 \<lfloor>real originalCount / real_of_int targetCount\<rfloor>)\<rceil>"
    using ceil_div_nat [OF s1, of originalCount] by (simp add: pts)
  have "originalCount + ?s - 1 \<ge> 1 * ?s"
    using assms(2) by simp
  hence c1: "1 \<le> ?c"
    using s1 by (simp only: less_eq_div_iff_mult_less_eq)
  hence ne: "points ?out \<noteq> []"
    by (simp add: pts)
  have "[0..<?c] = 0 # [1..<?c]"
    using c1 by (simp add: upt_conv_Cons)
  hence "hd (points ?out) = points positions ! 0"
    by (simp add: pts)
  also have "\<dots> = hd (points positions)"
  proof -
    have "points positions \<noteq> []"
      using length_points [OF assms(1)] assms(2) by auto
    thus ?thesis
      by (simp add: hd_conv_nth)
  qed
  finally have h: "hd (points ?out) = hd (points positions)" .
  have l3: "length ?out = 3 * length (points ?out)"
    using len by (simp add: pts)
  show ?thesis
    using count l3 ne h decimateVertices_raises by blast
qed

theorem decimateVertices_raises_after_count_witness:
  "length (map real [0..<15]) = 3 * 5 \<and> (1::nat) \<le> 5 \<and> (1::int) \<le> 2
   \<and> decimateVertices (map real [0..<15]) 2 = Inl ReferenceError
   \<and> int (length (points (decimateLoop (map real [0..<15]) 2 0 []))) = 3
   \<and> points (decimateLoop (map real [0..<15]) 2 0 []) \<noteq> []
   \<and> hd (points (decimateLoop (map real [0..<15]) 2 0 [])) = (0, 1, 2)"
proof -
  have l: "length (map real [0..<15]) = 3 * 5"
    by simp
  have h: "hd (points (map real [0..<15])) = (0, 1, 2)"
    by (simp add: upt_conv_Cons)
  have c: "\<lceil>real 5 / real_of_int (max 1 \<lfloor>real 5 / real_of_int 2\<rfloor>)\<rceil> = 3"
    by simp
  show ?thesis
    using decimateVertices_raises_after_count [OF l, of 2] h c by simp
qed

subsection \<open>A target below the vertex count\<close>

text \<open>
  Claim C2, as amended. For \<open>3 \<le> targetCount < originalCount\<close> the sequence that
  \<open>decimateVertices\<close> computes, the array \<open>newPositions\<close> when the loop has ended, is the
  points of the input at the indices \<open>0, stride, 2 stride, ...\<close> in their original order,
  so a subsequence of the input that holds no other point. Their number is the ceiling of
  \<open>originalCount / stride\<close> with \<open>stride = max(1, floor(originalCount / targetCount))\<close>;
  it is at least \<open>targetCount\<close> and less than twice \<open>targetCount\<close>.
\<close>

theorem decimateVertices_subsample:
  assumes "length positions = 3 * originalCount"
    and "3 \<le> targetCount" and "targetCount < int originalCount"
  shows "let stride = nat (max 1 \<lfloor>real originalCount / real_of_int targetCount\<rfloor>);
             out = points (decimateLoop positions targetCount 0 [])
         in out = map (\<lambda>j. points positions ! (j * stride)) [0..<length out]
            \<and> int (length out) = \<lceil>real originalCount / real stride\<rceil>
            \<and> targetCount \<le> int (length out)
            \<and> int (length out) < 2 * targetCount
            \<and> subseq out (points positions)"
proof -
  let ?s = "strideOf originalCount targetCount"
  let ?c = "(originalCount + ?s - 1) div ?s"
  let ?out = "points (decimateLoop positions targetCount 0 [])"
  have t: "targetCount \<noteq> 0" and tpos: "0 < targetCount"
    using assms(2) by simp_all
  have pts: "?out = map (\<lambda>j. points positions ! (j * ?s)) [0..<?c]"
    by (rule decimateLoop_points(2) [OF assms(1) t])
  hence len: "length ?out = ?c"
    by simp
  have count: "int (length ?out) = \<lceil>real originalCount / real ?s\<rceil>"
    using ceil_div_nat [OF strideOf_pos [of originalCount targetCount], of originalCount] len by simp
  have s: "?s = max 1 (originalCount div nat targetCount)"
    by (rule strideOf_div [OF tpos])
  have t1: "1 \<le> nat targetCount" and tn: "nat targetCount \<le> originalCount"
    using assms(2,3) by simp_all
  have lo: "nat targetCount \<le> ?c"
    using stride_count_bounds(1) [OF t1 tn] by (simp only: s)
  have hi: "?c < 2 * nat targetCount"
    using stride_count_bounds(2) [OF t1 tn] by (simp only: s)
  have sub: "subseq ?out (points positions)"
    by (rule decimateLoop_subseq [OF assms(1) t])
  have "?out = map (\<lambda>j. points positions ! (j * ?s)) [0..<length ?out]"
    using pts len by simp
  moreover have "targetCount \<le> int (length ?out)" "int (length ?out) < 2 * targetCount"
    using lo hi tpos unfolding len by linarith+
  ultimately show ?thesis
    using count sub by (simp add: Let_def strideOf_def)
qed

theorem decimateVertices_subsample_witness:
  "length (map real [0..<30]) = 3 * 10 \<and> (3::int) \<le> 3 \<and> (3::int) < int 10
   \<and> int (length (points (decimateLoop (map real [0..<30]) 3 0 []))) = 4
   \<and> subseq (points (decimateLoop (map real [0..<30]) 3 0 [])) (points (map real [0..<30]))"
proof -
  have l: "length (map real [0..<30]) = 3 * 10"
    by simp
  have c: "\<lceil>real 10 / real (nat (max 1 \<lfloor>real 10 / real_of_int 3\<rfloor>))\<rceil> = 4"
    by simp
  show ?thesis
    using decimateVertices_subsample [OF l, of 3] c by (simp add: Let_def)
qed

text \<open>
  Claim C2 as first stated has \<open>decimateVertices\<close> return a sequence whose length lies
  within one stride of \<open>targetCount\<close>. For 11 points and \<open>targetCount = 6\<close> the stride is
  1 and the loop keeps all 11 points, five more than the target; and the call returns no
  sequence, it raises \<open>ReferenceError\<close>.
\<close>

theorem decimateVertices_overshoots_target:
  "length (points (decimateLoop (map real [0..<33]) 6 0 [])) = 11
   \<and> max 1 \<lfloor>real 11 / real_of_int 6\<rfloor> = 1
   \<and> \<not> withinOneStride (length (points (decimateLoop (map real [0..<33]) 6 0 []))) 6
         (max 1 \<lfloor>real 11 / real_of_int 6\<rfloor>)
   \<and> decimateVertices (map real [0..<33]) 6 = Inl ReferenceError"
proof -
  have l: "length (map real [0..<33]) = 3 * 11"
    by simp
  have t: "(6::int) \<noteq> 0"
    by simp
  have s: "strideOf 11 6 = 1"
    by (simp add: strideOf_def)
  have "length (points (decimateLoop (map real [0..<33]) 6 0 []))
      = (11 + strideOf 11 6 - 1) div strideOf 11 6"
    by (simp only: decimateLoop_points(2) [OF l t] length_map length_upt)
  hence "length (points (decimateLoop (map real [0..<33]) 6 0 [])) = 11"
    by (simp add: s)
  moreover have "decimateVertices (map real [0..<33]) 6 = Inl ReferenceError"
    by (simp add: decimateVertices_def newTHREEBufferAttribute_def)
  ultimately show ?thesis
    by (simp add: withinOneStride_def)
qed

section \<open>Properties of the registry\<close>

subsection \<open>The sample scenes, evaluated\<close>

lemma tinyWorld_objects:
  "lodObjects tinyWorld =
     [(1, \<lparr> lodPosition = Vector3 0 0 0, lodLevels = [(0, 0), (50, 1), (200, 2)],
           lodChildren =
             [\<lparr> builtFor = 0, isOriginal = False,
                 levelObject = Object3D True (Some 0)
                   (Some (Single \<lparr> isMeshLambertMaterial = True, transparent = False, opacity = 1, wireframe = False \<rparr>))
                   True [] \<rparr>,
              \<lparr> builtFor = 1, isOriginal = False,
                 levelObject = Object3D True (Some 0)
                   (Some (Single \<lparr> isMeshLambertMaterial = True, transparent = True, opacity = 4 / 5, wireframe = False \<rparr>))
                   True [] \<rparr>,
              \<lparr> builtFor = 2, isOriginal = False,
                 levelObject = Object3D True (Some 0)
                   (Some (Single \<lparr> isMeshLambertMaterial = True, transparent = True, opacity = 3 / 5, wireframe = False \<rparr>))
                   True [] \<rparr>],
           lodParent = Some 7 \<rparr>)]"
  by code_simp

lemma tinyWorld_config: "config tinyWorld = defaultConfig"
  by code_simp

lemma distanceTo_x_axis: "distanceTo (Vector3 a 0 0) (Vector3 0 0 0) = \<bar>a\<bar>"
  by simp

subsection \<open>The current level (\<open>getCurrentLODLevel\<close>)\<close>

lemma currentLevelLoop_spec:
  "n \<le> length ls \<Longrightarrow>
   (if \<exists>i<n. distance (ls ! i) \<le> d
    then currentLevelLoop ls d n < n \<and> distance (ls ! currentLevelLoop ls d n) \<le> d
         \<and> (\<forall>j<n. distance (ls ! j) \<le> d \<longrightarrow> j \<le> currentLevelLoop ls d n)
    else currentLevelLoop ls d n = 0)"
proof (induction n)
  case 0
  show ?case by simp
next
  case (Suc n)
  show ?case
  proof (cases "distance (ls ! n) \<le> d")
    case True
    thus ?thesis by auto
  next
    case False
    have ih: "if \<exists>i<n. distance (ls ! i) \<le> d
      then currentLevelLoop ls d n < n \<and> distance (ls ! currentLevelLoop ls d n) \<le> d
           \<and> (\<forall>j<n. distance (ls ! j) \<le> d \<longrightarrow> j \<le> currentLevelLoop ls d n)
      else currentLevelLoop ls d n = 0"
      using Suc by simp
    have ex: "(\<exists>i<Suc n. distance (ls ! i) \<le> d) \<longleftrightarrow> (\<exists>i<n. distance (ls ! i) \<le> d)"
      using False less_Suc_eq by auto
    have step: "currentLevelLoop ls d (Suc n) = currentLevelLoop ls d n"
      using False by simp
    show ?thesis
    proof (cases "\<exists>i<n. distance (ls ! i) \<le> d")
      case True
      with ih have a: "currentLevelLoop ls d n < n" "distance (ls ! currentLevelLoop ls d n) \<le> d"
        "\<forall>j<n. distance (ls ! j) \<le> d \<longrightarrow> j \<le> currentLevelLoop ls d n"
        by simp_all
      have b: "\<forall>j<Suc n. distance (ls ! j) \<le> d \<longrightarrow> j \<le> currentLevelLoop ls d n"
        using a(3) False less_Suc_eq by auto
      have c: "currentLevelLoop ls d n < Suc n"
        using a(1) by simp
      have e: "\<exists>i<Suc n. distance (ls ! i) \<le> d"
        using True ex by simp
      show ?thesis
        unfolding step using e a(2) b c by (simp only: if_True simp_thms)
    next
      case no: False
      with ih have z: "currentLevelLoop ls d n = 0" by simp
      have e: "\<not> (\<exists>i<Suc n. distance (ls ! i) \<le> d)"
        using no ex by simp
      show ?thesis
        unfolding step using e z by (simp only: if_False)
    qed
  qed
qed

text \<open>
  What the query computes. \<open>getCurrentLODLevel\<close> returns the state it was given. For an
  unmanaged \<open>modelID\<close> it returns 0. For a managed model, with \<open>d\<close> the Euclidean distance
  from the camera to the position of the model's \<open>LOD\<close> object, it returns the highest
  index of \<open>config.levels\<close> whose distance is at most \<open>d\<close>, whether that level is enabled
  or not, and 0 when no level has a distance of at most \<open>d\<close>.
\<close>

lemma getCurrentLODLevel_highest_configured:
  "snd (getCurrentLODLevel w modelID' cameraPosition) = w
   \<and> (map_of (lodObjects w) modelID' = None \<longrightarrow> fst (getCurrentLODLevel w modelID' cameraPosition) = 0)
   \<and> (\<forall>lodObject. map_of (lodObjects w) modelID' = Some lodObject \<longrightarrow>
        (let d = distanceTo cameraPosition (lodPosition lodObject);
             ls = levels (config w);
             r = fst (getCurrentLODLevel w modelID' cameraPosition)
         in if \<exists>i<length ls. distance (ls ! i) \<le> d
            then r < length ls \<and> distance (ls ! r) \<le> d \<and> (\<forall>j<length ls. distance (ls ! j) \<le> d \<longrightarrow> j \<le> r)
            else r = 0))"
proof -
  have frame: "snd (getCurrentLODLevel w modelID' cameraPosition) = w"
    by (simp add: getCurrentLODLevel_def split: option.split)
  have unmanaged: "map_of (lodObjects w) modelID' = None \<longrightarrow> fst (getCurrentLODLevel w modelID' cameraPosition) = 0"
    by (simp add: getCurrentLODLevel_def)
  have managed: "\<forall>lodObject. map_of (lodObjects w) modelID' = Some lodObject \<longrightarrow>
        (let d = distanceTo cameraPosition (lodPosition lodObject);
             ls = levels (config w);
             r = fst (getCurrentLODLevel w modelID' cameraPosition)
         in if \<exists>i<length ls. distance (ls ! i) \<le> d
            then r < length ls \<and> distance (ls ! r) \<le> d \<and> (\<forall>j<length ls. distance (ls ! j) \<le> d \<longrightarrow> j \<le> r)
            else r = 0)"
  proof (intro allI impI)
    fix lodObject
    assume m: "map_of (lodObjects w) modelID' = Some lodObject"
    have r: "fst (getCurrentLODLevel w modelID' cameraPosition)
        = currentLevelLoop (levels (config w)) (distanceTo cameraPosition (lodPosition lodObject))
            (length (levels (config w)))"
      using m by (simp add: getCurrentLODLevel_def)
    show "let d = distanceTo cameraPosition (lodPosition lodObject);
             ls = levels (config w);
             r = fst (getCurrentLODLevel w modelID' cameraPosition)
         in if \<exists>i<length ls. distance (ls ! i) \<le> d
            then r < length ls \<and> distance (ls ! r) \<le> d \<and> (\<forall>j<length ls. distance (ls ! j) \<le> d \<longrightarrow> j \<le> r)
            else r = 0"
      unfolding Let_def r
      by (rule currentLevelLoop_spec) simp
  qed
  show ?thesis
    using frame unmanaged managed by blast
qed

text \<open>
  Claim C1. The query should return the highest enabled level within the distance of the
  camera. The loop of \<open>getCurrentLODLevel\<close> runs over \<open>config.levels\<close> and does not read
  \<open>visible\<close>. In \<open>tinyWorld\<close> the \<open>LOD\<close> object holds the meshes built for levels 0, 1
  and 2; level 3 of the default configuration is disabled and no mesh is built for it. For a
  camera at distance 600 from the model the query answers 3, while the highest enabled level
  within that distance is level 2.
\<close>

theorem getCurrentLODLevel_counts_disabled_level:
  "fst (getCurrentLODLevel tinyWorld 1 (Vector3 600 0 0)) = 3
   \<and> \<not> visible (levels (config tinyWorld) ! 3)
   \<and> map (\<lambda>(k, lodObject). map builtFor (lodChildren lodObject)) (lodObjects tinyWorld) = [[0, 1, 2]]
   \<and> highestEnabledLevel (levels (config tinyWorld)) (distanceTo (Vector3 600 0 0) (Vector3 0 0 0)) = 2"
proof -
  have d: "distanceTo (Vector3 600 0 0) (Vector3 0 0 0) = 600"
    by (simp only: distanceTo_x_axis)
  have "fst (getCurrentLODLevel tinyWorld 1 (Vector3 600 0 0))
      = currentLevelLoop (levels defaultConfig) 600 (length (levels defaultConfig))"
    by (simp add: getCurrentLODLevel_def tinyWorld_objects tinyWorld_config d del: distanceTo.simps)
  also have "\<dots> = 3"
    by (simp add: defaultConfig_def numeral_eq_Suc)
  finally have r: "fst (getCurrentLODLevel tinyWorld 1 (Vector3 600 0 0)) = 3" .
  have v: "\<not> visible (levels (config tinyWorld) ! 3)"
    by (simp add: tinyWorld_config defaultConfig_def)
  have b: "map (\<lambda>(k, lodObject). map builtFor (lodChildren lodObject)) (lodObjects tinyWorld) = [[0, 1, 2]]"
    by (simp add: tinyWorld_objects)
  have "highestEnabledLevel (levels defaultConfig) 600 = 2"
    by code_simp
  hence h: "highestEnabledLevel (levels (config tinyWorld)) (distanceTo (Vector3 600 0 0) (Vector3 0 0 0)) = 2"
    by (simp only: d tinyWorld_config)
  show ?thesis
    using r v b h by simp
qed

subsection \<open>Shared geometry (\<open>createLODLevel\<close>)\<close>

lemma cloneObject_same: "cloneObject node = node"
  by (induction node) (simp add: map_idI)


lemma collect_Inr: "collect rs = Inr vs \<Longrightarrow> rs = map Inr vs"
  by (induction rs arbitrary: vs rule: collect.induct) (auto split: sum.splits)

lemma adjustMaterial_geometry:
  "adjustMaterial throws levelIndex node = Inr adjusted \<Longrightarrow> geometry adjusted = geometry node"
  by (cases node) (auto split: sum.splits)

lemma adjustMaterial_geometries:
  "adjustMaterial throws levelIndex node = Inr adjusted
   \<Longrightarrow> map geometry (traverse adjusted) = map geometry (traverse node)"
proof (induction node arbitrary: adjusted)
  case (Object3D m g mat v cs)
  from Object3D.prems obtain mat1 cs1 where
    c: "collect (map (adjustMaterial throws levelIndex) cs) = Inr cs1"
    and r: "adjusted = Object3D m g mat1 v cs1"
    by (auto split: sum.splits)
  have e: "map (adjustMaterial throws levelIndex) cs = map Inr cs1"
    using c by (rule collect_Inr)
  hence len: "length cs1 = length cs"
    by (metis length_map)
  have "\<And>i. i < length cs \<Longrightarrow> map geometry (traverse (cs1 ! i)) = map geometry (traverse (cs ! i))"
  proof -
    fix i assume i: "i < length cs"
    have "adjustMaterial throws levelIndex (cs ! i) = Inr (cs1 ! i)"
      using e i len by (metis nth_map)
    thus "map geometry (traverse (cs1 ! i)) = map geometry (traverse (cs ! i))"
      using Object3D.IH [of "cs ! i" "cs1 ! i"] i by simp
  qed
  hence "map (\<lambda>c. map geometry (traverse c)) cs1 = map (\<lambda>c. map geometry (traverse c)) cs"
    using len by (simp add: list_eq_iff_nth_eq)
  hence "concat (map (map geometry \<circ> traverse) cs1) = concat (map (map geometry \<circ> traverse) cs)"
    by (simp add: comp_def)
  thus ?case
    by (simp add: r map_concat)
qed

text \<open>
  Claim C4. Each level should own its position buffer, apart from the source mesh and from
  its siblings. \<open>createLODLevel\<close> builds a level with \<open>originalMesh.clone()\<close>, and
  \<open>Mesh.clone\<close> keeps the reference to the geometry: every mesh that \<open>createLODLevel\<close>
  returns, for every level and whichever calls raise, refers to the geometry object of the
  source mesh, and so does each of its descendants to the geometry of the descendant it was
  cloned from. The position buffer of the level is the position buffer of the source.
\<close>

theorem createLODLevel_shares_geometry:
  assumes "fst (createLODLevel throws originalMesh level levelIndex h) = Some levelMesh"
  shows "geometry (levelObject levelMesh) = geometry originalMesh
    \<and> map geometry (traverse (levelObject levelMesh)) = map geometry (traverse originalMesh)"
proof (cases "createLODLevelTry throws originalMesh level levelIndex h")
  case (Pair result h1)
  show ?thesis
  proof (cases result)
    case (Inl e)
    with Pair assms show ?thesis
      by (auto simp: createLODLevel_def split: if_splits)
  next
    case (Inr adjusted)
    with Pair have "adjustMaterial throws levelIndex originalMesh = Inr adjusted"
      by (auto simp: createLODLevelTry_def cloneObject_same Let_def split: if_splits prod.splits option.splits sum.splits)
    hence "geometry adjusted = geometry originalMesh"
      and "map geometry (traverse adjusted) = map geometry (traverse originalMesh)"
      using adjustMaterial_geometry adjustMaterial_geometries by simp_all
    with Pair Inr assms show ?thesis
      by (auto simp: createLODLevel_def split: if_splits)
  qed
qed

theorem createLODLevel_shares_geometry_witness:
  "fst (createLODLevel (\<lambda>c. False) exampleMesh (levels defaultConfig ! 0) 0 (\<lambda>g. exampleGeometry))
     = Some \<lparr> builtFor = 0, isOriginal = False,
              levelObject = Object3D True (Some 0) (Some (Single exampleMaterial)) True [] \<rparr>
   \<and> geometry (Object3D True (Some 0) (Some (Single exampleMaterial)) True []) = geometry exampleMesh
   \<and> geometry (mesh exampleModel) = Some 0
   \<and> map (\<lambda>(k, lodObject). map (\<lambda>c. geometry (levelObject c)) (lodChildren lodObject)) (lodObjects exampleWorld)
       = [[Some 0]]
   \<and> \<not> disposed (heap exampleWorld 0)
   \<and> disposed (heap (dispose exampleWorld) 0)
   \<and> map (\<lambda>(k, lodObject). map (\<lambda>c. geometry (levelObject c)) (lodChildren lodObject)) (lodObjects tinyWorld)
       = [[Some 0, Some 0, Some 0]]"
proof -
  let ?levelMesh = "\<lparr> builtFor = 0, isOriginal = False,
              levelObject = Object3D True (Some 0) (Some (Single exampleMaterial)) True [] \<rparr>"
  have a: "fst (createLODLevel (\<lambda>c. False) exampleMesh (levels defaultConfig ! 0) 0 (\<lambda>g. exampleGeometry))
     = Some ?levelMesh"
    by code_simp
  have b: "geometry (Object3D True (Some 0) (Some (Single exampleMaterial)) True []) = geometry exampleMesh"
    using createLODLevel_shares_geometry [OF a] by simp
  have c: "geometry (mesh exampleModel) = Some 0"
    by code_simp
  have d: "map (\<lambda>(k, lodObject). map (\<lambda>c. geometry (levelObject c)) (lodChildren lodObject)) (lodObjects exampleWorld)
       = [[Some 0]]"
    by code_simp
  have e: "\<not> disposed (heap exampleWorld 0)"
    by code_simp
  have f: "disposed (heap (dispose exampleWorld) 0)"
    by code_simp
  have g: "map (\<lambda>(k, lodObject). map (\<lambda>c. geometry (levelObject c)) (lodChildren lodObject)) (lodObjects tinyWorld)
       = [[Some 0, Some 0, Some 0]]"
    by code_simp
  show ?thesis
    using a b c d e f g by simp
qed

subsection \<open>Synthesis of one level (\<open>createLODLevel\<close>)\<close>








subsection \<open>Errors during synthesis\<close>

lemma createLODLevelTry_level0_heap:
  "snd (createLODLevelTry throws originalMesh level 0 h) = h"
  by (simp add: createLODLevelTry_def Let_def split: sum.split)

lemma createLODForModel_objects:
  "\<exists>lodObject. lodObjects (createLODForModel w model)
     = AList.update (modelID model) lodObject (AList.delete (modelID model) (lodObjects w))"
proof -
  let ?w1 = "if map_of (lodObjects w) (modelID model) \<noteq> None
             then removeLODForModel w (modelID model) else w"
  have w1: "lodObjects ?w1 = AList.delete (modelID model) (lodObjects w)"
  proof (cases "map_of (lodObjects w) (modelID model)")
    case None
    hence "modelID model \<notin> fst ` set (lodObjects w)"
      by (simp add: map_of_eq_None_iff)
    thus ?thesis
      using None by simp
  next
    case (Some l)
    thus ?thesis
      by (simp add: removeLODForModel_def)
  qed
  obtain built parent h1 where b: "buildLevels (libraryThrows ?w1) (mesh model) (levels (config ?w1)) 0
      (newLOD, (case meshParent model of None \<Rightarrow> Detached | Some p \<Rightarrow> SceneNode p), heap ?w1) = (built, parent, h1)"
    by (cases "buildLevels (libraryThrows ?w1) (mesh model) (levels (config ?w1)) 0
      (newLOD, (case meshParent model of None \<Rightarrow> Detached | Some p \<Rightarrow> SceneNode p), heap ?w1)") auto
  show ?thesis
    unfolding createLODForModel_def Let_def b using w1 by (auto simp del: AList.delete_simps)
qed

lemma createLODForModel_managed:
  "map_of (lodObjects (createLODForModel w model)) (modelID model) \<noteq> None"
proof -
  obtain lodObject where "lodObjects (createLODForModel w model)
     = AList.update (modelID model) lodObject (AList.delete (modelID model) (lodObjects w))"
    using createLODForModel_objects by blast
  thus ?thesis
    by (simp add: update_conv')
qed

text \<open>
  Claim C6. When the \<open>try\<close> block of \<open>createLODLevel\<close> raises for an enabled level,
  whatever raised, \<open>createLODLevel\<close> returns \<open>null\<close> for a level above 0, and the loop of
  \<open>createLODForModel\<close> goes on with the remaining levels; for level 0 it returns the
  original mesh itself, and the store is then the one before the call. \<open>createLODForModel\<close>
  returns with the model registered whichever library calls raise.
\<close>

theorem createLODLevel_soft_failure:
  assumes "visible level"
    and "createLODLevelTry (throws levelIndex) originalMesh level levelIndex h = (Inl e, h1)"
  shows "createLODLevel (throws levelIndex) originalMesh level levelIndex h
      = (if levelIndex = 0
         then Some \<lparr> builtFor = 0, isOriginal = True, levelObject = originalMesh \<rparr>
         else None, h1)
    \<and> (levelIndex = 0 \<longrightarrow> h1 = h)
    \<and> (0 < levelIndex \<longrightarrow>
          buildLevels throws originalMesh (level # rest) levelIndex (lodObject, parent, h)
            = buildLevels throws originalMesh rest (Suc levelIndex) (lodObject, parent, h1))
    \<and> map_of (lodObjects (createLODForModel w model)) (modelID model) \<noteq> None"
proof -
  have a: "createLODLevel (throws levelIndex) originalMesh level levelIndex h
      = (if levelIndex = 0
         then Some \<lparr> builtFor = 0, isOriginal = True, levelObject = originalMesh \<rparr>
         else None, h1)"
    using assms by (simp add: createLODLevel_def)
  have b: "levelIndex = 0 \<longrightarrow> h1 = h"
    using assms(2) createLODLevelTry_level0_heap [of "throws 0" originalMesh level h] by auto
  have c: "0 < levelIndex \<longrightarrow>
          buildLevels throws originalMesh (level # rest) levelIndex (lodObject, parent, h)
            = buildLevels throws originalMesh rest (Suc levelIndex) (lodObject, parent, h1)"
    using a by simp
  show ?thesis
    using a b c createLODForModel_managed by blast
qed

theorem createLODLevel_soft_failure_witness:
  "fst (createLODLevelTry (\<lambda>c. False) exampleMesh
          \<lparr> distance = 50, simplificationRatio = 1 / 2, visible = True \<rparr> 1 (\<lambda>g. exampleGeometry))
     = Inl ReferenceError
   \<and> fst (createLODLevel (\<lambda>c. False) exampleMesh
          \<lparr> distance = 50, simplificationRatio = 1 / 2, visible = True \<rparr> 1 (\<lambda>g. exampleGeometry))
     = None
   \<and> fst (createLODLevelTry (\<lambda>c. c = MaterialClone) exampleMesh
          \<lparr> distance = 200, simplificationRatio = 1, visible = True \<rparr> 2 (\<lambda>g. exampleGeometry))
     = Inl LibraryError
   \<and> fst (createLODLevel (\<lambda>c. c = MaterialClone) exampleMesh
          \<lparr> distance = 200, simplificationRatio = 1, visible = True \<rparr> 2 (\<lambda>g. exampleGeometry))
     = None
   \<and> fst (createLODLevelTry (\<lambda>c. False) arrayMesh
          \<lparr> distance = 0, simplificationRatio = 1, visible = True \<rparr> 0 (\<lambda>g. exampleGeometry))
     = Inl TypeError
   \<and> fst (createLODLevel (\<lambda>c. False) arrayMesh
          \<lparr> distance = 0, simplificationRatio = 1, visible = True \<rparr> 0 (\<lambda>g. exampleGeometry))
     = Some \<lparr> builtFor = 0, isOriginal = True, levelObject = arrayMesh \<rparr>
   \<and> map_of (lodObjects (createLODForModel
          (newLODManager None (\<lambda>g. exampleGeometry) (\<lambda>i c. False)) exampleModel)) 1
     \<noteq> None"
proof -
  let ?l1 = "\<lparr> distance = 50, simplificationRatio = 1 / 2, visible = True \<rparr>"
  let ?l2 = "\<lparr> distance = 200, simplificationRatio = 1, visible = True \<rparr>"
  let ?l0 = "\<lparr> distance = 0, simplificationRatio = 1, visible = True \<rparr>"
  let ?h = "\<lambda>g::nat. exampleGeometry"
  let ?t0 = "\<lambda>(i::nat) (c::LibraryCall). False"
  let ?t2 = "\<lambda>(i::nat) c. c = MaterialClone"
  let ?w = "newLODManager None ?h (\<lambda>i c. False)"
  have f1: "fst (createLODLevelTry (?t0 1) exampleMesh ?l1 1 ?h) = Inl ReferenceError"
    by code_simp
  hence e1: "createLODLevelTry (?t0 1) exampleMesh ?l1 1 ?h
      = (Inl ReferenceError, snd (createLODLevelTry (?t0 1) exampleMesh ?l1 1 ?h))"
    by (simp add: prod_eq_iff)
  have v1: "visible ?l1"
    by simp
  have c1: "fst (createLODLevel (?t0 1) exampleMesh ?l1 1 ?h) = None"
    using createLODLevel_soft_failure [of ?l1 ?t0 1 exampleMesh ?h ReferenceError _ "[]" newLOD Detached ?w exampleModel, OF v1 e1]
    by simp
  have f2: "fst (createLODLevelTry (?t2 2) exampleMesh ?l2 2 ?h) = Inl LibraryError"
    by code_simp
  hence e2: "createLODLevelTry (?t2 2) exampleMesh ?l2 2 ?h
      = (Inl LibraryError, snd (createLODLevelTry (?t2 2) exampleMesh ?l2 2 ?h))"
    by (simp add: prod_eq_iff)
  have v2: "visible ?l2"
    by simp
  have c2: "fst (createLODLevel (?t2 2) exampleMesh ?l2 2 ?h) = None"
    using createLODLevel_soft_failure [of ?l2 ?t2 2 exampleMesh ?h LibraryError _ "[]" newLOD Detached ?w exampleModel, OF v2 e2]
    by simp
  have f0: "fst (createLODLevelTry (?t0 0) arrayMesh ?l0 0 ?h) = Inl TypeError"
    by code_simp
  hence e0: "createLODLevelTry (?t0 0) arrayMesh ?l0 0 ?h
      = (Inl TypeError, snd (createLODLevelTry (?t0 0) arrayMesh ?l0 0 ?h))"
    by (simp add: prod_eq_iff)
  have v0: "visible ?l0"
    by simp
  have c0: "fst (createLODLevel (?t0 0) arrayMesh ?l0 0 ?h)
      = Some \<lparr> builtFor = 0, isOriginal = True, levelObject = arrayMesh \<rparr>"
    using createLODLevel_soft_failure [of ?l0 ?t0 0 arrayMesh ?h TypeError _ "[]" newLOD Detached ?w exampleModel, OF v0 e0]
    by simp
  have "modelID exampleModel = 1"
    by (simp add: exampleModel_def)
  hence r: "map_of (lodObjects (createLODForModel ?w exampleModel)) 1 \<noteq> None"
    using createLODLevel_soft_failure [of ?l1 ?t0 1 exampleMesh ?h ReferenceError _ "[]" newLOD Detached ?w exampleModel, OF v1 e1]
    by simp
  show ?thesis
    using f1 c1 f2 c2 f0 c0 r by simp
qed

subsection \<open>Manual selection (\<open>setLODLevel\<close>)\<close>

text \<open>
  For an unmanaged model and for an index outside the configured levels \<open>setLODLevel\<close>
  changes nothing; otherwise the child at position \<open>level\<close>, if there is one, is the only
  child left visible.
\<close>

lemma setLODLevel_unmanaged:
  "map_of (lodObjects w) modelID' = None \<Longrightarrow> setLODLevel w modelID' level = w"
  by (simp add: setLODLevel_def)

lemma setLODLevel_out_of_range:
  "level < 0 \<or> int (length (levels (config w))) \<le> level \<Longrightarrow> setLODLevel w modelID' level = w"
  by (auto simp: setLODLevel_def split: option.split)

lemma length_showOnly: "length (showOnly level cs) = length cs"
  by (simp add: showOnly_def)

lemma objectVisible_setVisible: "objectVisible (setVisible b node) = b"
  by (cases node) simp

lemma showOnly_visible:
  "i < length cs \<Longrightarrow> objectVisible (levelObject (showOnly level cs ! i)) \<longleftrightarrow> int i = level"
  by (simp add: showOnly_def objectVisible_setVisible)

lemma setLODLevel_in_range:
  assumes "map_of (lodObjects w) modelID' = Some lodObject"
    and "0 \<le> level" and "level < int (length (levels (config w)))"
  shows "map_of (lodObjects (setLODLevel w modelID' level)) modelID'
    = Some (lodObject\<lparr> lodChildren := showOnly level (lodChildren lodObject) \<rparr>)"
  using assms by (simp add: setLODLevel_def update_conv')

text \<open>
  Claim C7. For an index in range \<open>setLODLevel\<close> should show the level at that index and
  hide its siblings. The range check reads the number of configured levels, while the loop
  compares the index with the positions of the built children. In \<open>gappedWorld\<close> level 1 is
  disabled, the children are the meshes built for levels 0 and 2, both visible; the call
  \<open>setLODLevel 1 2\<close> names an enabled level in range and hides both, the mesh of level 2
  included. In \<open>tinyWorld\<close>, under the default configuration, the call \<open>setLODLevel 1 3\<close>
  passes the range check as well and hides all three meshes.
\<close>

theorem setLODLevel_hides_every_level:
  "(0::int) \<le> 2 \<and> 2 < int (length (levels (config gappedWorld)))
   \<and> visible (levels (config gappedWorld) ! 2)
   \<and> map (\<lambda>(k, lodObject). map (\<lambda>c. (builtFor c, objectVisible (levelObject c))) (lodChildren lodObject))
         (lodObjects gappedWorld)
       = [[(0, True), (2, True)]]
   \<and> map (\<lambda>(k, lodObject). map (\<lambda>c. (builtFor c, objectVisible (levelObject c))) (lodChildren lodObject))
         (lodObjects (setLODLevel gappedWorld 1 2))
       = [[(0, False), (2, False)]]
   \<and> map (\<lambda>(k, lodObject). map (\<lambda>c. (builtFor c, objectVisible (levelObject c))) (lodChildren lodObject))
         (lodObjects tinyWorld)
       = [[(0, True), (1, True), (2, True)]]
   \<and> map (\<lambda>(k, lodObject). map (\<lambda>c. (builtFor c, objectVisible (levelObject c))) (lodChildren lodObject))
         (lodObjects (setLODLevel tinyWorld 1 3))
       = [[(0, False), (1, False), (2, False)]]"
  by code_simp

subsection \<open>One entry for each model\<close>

lemma removeLODForModel_objects:
  "lodObjects (removeLODForModel w k) = AList.delete k (lodObjects w)"
proof (cases "map_of (lodObjects w) k")
  case None
  hence "k \<notin> fst ` set (lodObjects w)"
    by (simp add: map_of_eq_None_iff)
  thus ?thesis
    using None by (simp add: removeLODForModel_def)
next
  case (Some l)
  thus ?thesis
    by (simp add: removeLODForModel_def)
qed

lemma createLODForModel_distinct:
  assumes "distinct (map fst (lodObjects w))"
  shows "distinct (map fst (lodObjects (createLODForModel w model)))"
proof -
  obtain lodObject where "lodObjects (createLODForModel w model)
     = AList.update (modelID model) lodObject (AList.delete (modelID model) (lodObjects w))"
    using createLODForModel_objects by blast
  thus ?thesis
    using assms by (simp add: distinct_update distinct_delete)
qed

lemma runOperations_distinct:
  "distinct (map fst (lodObjects w)) \<Longrightarrow> distinct (map fst (lodObjects (runOperations w ops)))"
proof (induction ops arbitrary: w)
  case Nil
  thus ?case by simp
next
  case (Cons operation ops)
  show ?case
  proof (cases operation)
    case (Register model)
    thus ?thesis
      using Cons createLODForModel_distinct by simp
  next
    case (Unregister k)
    have "distinct (map fst (lodObjects (removeLODForModel w k)))"
      using Cons.prems by (simp add: removeLODForModel_objects distinct_delete)
    thus ?thesis
      using Cons.IH Unregister by simp
  qed
qed

lemma update_absent_count:
  "k \<notin> fst ` set al \<Longrightarrow> length (filter (\<lambda>entry. fst entry = k) (AList.update k v al)) = 1"
  by (induction al) auto

lemma createLODForModel_one_entry:
  "length (filter (\<lambda>entry. fst entry = modelID model) (lodObjects (createLODForModel w model))) = 1"
proof -
  obtain lodObject where "lodObjects (createLODForModel w model)
     = AList.update (modelID model) lodObject (AList.delete (modelID model) (lodObjects w))"
    using createLODForModel_objects by blast
  thus ?thesis
    using update_absent_count [OF delete_notin_dom] by simp
qed

lemma removeLODForModel_absent:
  "map_of (lodObjects w) k = None \<Longrightarrow> removeLODForModel w k = w"
  by (simp add: removeLODForModel_def)

lemma createLODForModel_after_remove:
  "createLODForModel (removeLODForModel w (modelID model)) model = createLODForModel w model"
proof (cases "map_of (lodObjects w) (modelID model)")
  case None
  thus ?thesis
    by (simp add: removeLODForModel_absent)
next
  case (Some l)
  have gone: "map_of (lodObjects (removeLODForModel w (modelID model))) (modelID model) = None"
    by (simp add: removeLODForModel_objects delete_conv')
  show ?thesis
    using Some gone by (simp add: createLODForModel_def)
qed

text \<open>
  Claim C8. After any sequence of registrations and removals on a new manager no identifier
  occurs twice among the keys of the registry. Registering a model after such a sequence, or
  registering it a second time in any state, leaves exactly one entry for its identifier.
  \<open>createLODForModel\<close> gives the same state as removing the entry of the identifier first
  and registering then, and after the removal the identifier is unmanaged.
\<close>

theorem registry_single_entry:
  "distinct (map fst (lodObjects (runOperations (newLODManager given h throws) ops)))
   \<and> length (filter (\<lambda>entry. fst entry = modelID model)
        (lodObjects (createLODForModel (runOperations (newLODManager given h throws) ops) model))) = 1
   \<and> length (filter (\<lambda>entry. fst entry = modelID model)
        (lodObjects (createLODForModel (createLODForModel w model) model))) = 1
   \<and> createLODForModel w model = createLODForModel (removeLODForModel w (modelID model)) model
   \<and> map_of (lodObjects (removeLODForModel w (modelID model))) (modelID model) = None"
proof -
  have "distinct (map fst (lodObjects (newLODManager given h throws)))"
    by (simp add: newLODManager_def)
  hence a: "distinct (map fst (lodObjects (runOperations (newLODManager given h throws) ops)))"
    by (rule runOperations_distinct)
  have e: "map_of (lodObjects (removeLODForModel w (modelID model))) (modelID model) = None"
    by (simp add: removeLODForModel_objects delete_conv')
  show ?thesis
    using a e createLODForModel_one_entry createLODForModel_after_remove by simp
qed

subsection \<open>Teardown (\<open>dispose\<close>)\<close>

text \<open>
  Claim C9. \<open>dispose\<close> empties the registry, and a second \<open>dispose\<close> changes nothing.
  After it \<open>getMemoryUsage\<close> reports 0 bytes in total and 0 bytes for every configured
  level. Registering a model after \<open>dispose\<close> gives a registry that holds that model alone,
  the same state as registering it with a manager of the same configuration that holds no
  model.
\<close>

theorem dispose_clears_registry:
  "lodObjects (dispose w) = []
   \<and> dispose (dispose w) = dispose w
   \<and> getMemoryUsage (dispose w) = (0, replicate (length (levels (config w))) (Bytes 0))
   \<and> (\<exists>lodObject. lodObjects (createLODForModel (dispose w) model) = [(modelID model, lodObject)])
   \<and> createLODForModel (dispose w) model
       = createLODForModel \<lparr> lodObjects = [], config = config w, heap = heap (dispose w),
                             libraryThrows = libraryThrows w \<rparr> model"
proof -
  have a: "lodObjects (dispose w) = []"
    by (simp add: dispose_def)
  have b: "dispose (dispose w) = dispose w"
    by (simp add: dispose_def disposeObjects_def)
  have c: "getMemoryUsage (dispose w) = (0, replicate (length (levels (config w))) (Bytes 0))"
    by (simp add: getMemoryUsage_def dispose_def)
  obtain lodObject where "lodObjects (createLODForModel (dispose w) model)
     = AList.update (modelID model) lodObject (AList.delete (modelID model) (lodObjects (dispose w)))"
    using createLODForModel_objects by blast
  hence d: "\<exists>lodObject. lodObjects (createLODForModel (dispose w) model) = [(modelID model, lodObject)]"
    by (simp add: a)
  have "dispose w = \<lparr> lodObjects = [], config = config w, heap = heap (dispose w),
                             libraryThrows = libraryThrows w \<rparr>"
    by (simp add: dispose_def)
  hence e: "createLODForModel (dispose w) model
       = createLODForModel \<lparr> lodObjects = [], config = config w, heap = heap (dispose w),
                             libraryThrows = libraryThrows w \<rparr> model"
    by simp
  show ?thesis
    using a b c d e by blast
qed

end
